theory Spec2Isabelle
  imports Complex_Main "HOL-Library.AList"
begin

section \<open>Python strings\<close>

text \<open>
  Strings are lists of characters. \<open>str_lower\<close> is the ASCII part of Python's
  \<^verbatim>\<open>str.lower\<close>: every other character is left as it is.
\<close>

definition lower_char :: "char \<Rightarrow> char" where
  "lower_char c =
     (let n = (of_char c :: nat) in if 65 \<le> n \<and> n \<le> 90 then char_of (n + 32) else c)"

definition str_lower :: "string \<Rightarrow> string" where
  "str_lower s = map lower_char s"

text \<open>\<^verbatim>\<open>s.startswith(p)\<close> and \<^verbatim>\<open>sub in s\<close>.\<close>

definition startswith :: "string \<Rightarrow> string \<Rightarrow> bool" where
  "startswith s p = (take (length p) s = p)"

fun str_in :: "string \<Rightarrow> string \<Rightarrow> bool" where
  "str_in sub [] = (sub = [])"
| "str_in sub (c # cs) = (startswith (c # cs) sub \<or> str_in sub cs)"

text \<open>\<^verbatim>\<open>sep.join(xs)\<close>.\<close>

fun join :: "string \<Rightarrow> string list \<Rightarrow> string" where
  "join sep [] = []"
| "join sep [x] = x"
| "join sep (x # y # ys) = x @ sep @ join sep (y # ys)"

text \<open>The decimal rendering of a non-negative integer in an f-string.\<close>

fun str_nat :: "nat \<Rightarrow> string" where
  "str_nat n =
     (if n < 10 then [char_of (48 + n)] else str_nat (n div 10) @ [char_of (48 + n mod 10)])"

declare str_nat.simps [simp del]

section \<open>Errors, the outside world and the effects of a run\<close>

text \<open>
  Every exception of the source is a value. \<open>RuntimeError\<close> carries its message;
  \<open>AttributeError\<close> the attribute that was looked up; \<open>HTTPError\<close> the status that
  \<^verbatim>\<open>raise_for_status\<close> rejected; \<open>RequestException\<close> is a transport failure of
  \<^verbatim>\<open>requests\<close> and \<open>PandasError\<close> a failure inside \<^verbatim>\<open>pd.read_csv\<close>.
\<close>

datatype error =
    RuntimeError string
  | AttributeError string
  | HTTPError nat
  | RequestException string
  | PandasError string

record response =
  status_code :: nat
  body :: string

text \<open>
  A cell of a data frame read with \<^verbatim>\<open>dtype=str\<close> is a string or NaN (\<open>None\<close>). In a frame
  read with inferred types, \<open>Some s\<close> stands for the value whose \<^verbatim>\<open>str()\<close> is \<open>s\<close>. The
  index is the default \<^verbatim>\<open>RangeIndex\<close>.
\<close>

type_synonym cell = "string option"

record dataframe =
  columns :: "string list"
  cells :: "cell list list"

text \<open>
  Everything the source reaches outside itself: the environment, the network and the
  third-party functions whose internals are not part of the repository.
  \<open>http hist url\<close> is the outcome of a GET of \<open>url\<close> after the requests \<open>hist\<close> of the
  same run (a warm-up request may change what the origin answers); \<open>anchor_hrefs\<close> is
  \<^verbatim>\<open>[a["href"] for a in BeautifulSoup(text, "html.parser").find_all("a", href=True)]\<close>;
  \<open>read_csv dtype_str text\<close> is \<^verbatim>\<open>pd.read_csv(io.StringIO(text))\<close>, with \<^verbatim>\<open>dtype=str\<close> when the
  flag is set; \<open>clean_symbol\<close> is what \<^verbatim>\<open>.astype(str).str.strip().str.upper()\<close> makes of one
  cell of a Series (a string, or a cell still missing); \<open>py_upper\<close> is Python's
  \<^verbatim>\<open>str.upper\<close>, which \<^verbatim>\<open>.str.upper()\<close> applies to each string of a Series.
\<close>

record world =
  getenv :: "string \<Rightarrow> string option"
  http :: "string list \<Rightarrow> string \<Rightarrow> error + response"
  anchor_hrefs :: "string \<Rightarrow> string list"
  urljoin :: "string \<Rightarrow> string \<Rightarrow> string"
  read_csv :: "bool \<Rightarrow> string \<Rightarrow> error + dataframe"
  clean_symbol :: "cell \<Rightarrow> cell"
  py_upper :: "string \<Rightarrow> string"

text \<open>One row of the normalized report, and the report with its index labels.\<close>

record deliverable_record =
  Date :: string
  Symbol :: string
  TradedQty :: int
  DeliveryQty :: int
  DeliveryPct :: rat

type_synonym report = "(nat \<times> deliverable_record) list"

text \<open>A written spreadsheet: path, sheet name, header row and data rows (no index column).\<close>

record workbook =
  path :: string
  sheet_name :: string
  header :: "string list"
  sheet_rows :: "deliverable_record list"

datatype printed = Line string | ErrorLine error

record effects =
  requested :: "string list"
  stdout :: "printed list"
  written :: "workbook list"

definition NIFTY50_CSV :: string where
  "NIFTY50_CSV = ''https://www.niftyindices.com/IndexConstituent/ind_nifty50list.csv''"

definition REPORT_PAGE_URL :: string where
  "REPORT_PAGE_URL = ''https://www.nseindia.com/report-detail/eq_security''"

definition OUT_FILE :: string where
  "OUT_FILE = ''Nifty50_Delivery.xlsx''"

definition REPORT_CSV_ENV :: string where
  "REPORT_CSV_ENV = ''REPORT_CSV_URL''"

definition SITE_ROOT :: string where
  "SITE_ROOT = ''https://www.nseindia.com''"

text \<open>A GET, by the session or by \<^verbatim>\<open>requests.get\<close>: the answer, and the request recorded.\<close>

definition http_get :: "world \<Rightarrow> string \<Rightarrow> effects \<Rightarrow> (error + response) \<times> effects" where
  "http_get w url s = (http w (requested s) url, s\<lparr>requested := requested s @ [url]\<rparr>)"

definition raise_for_status :: "response \<Rightarrow> error + unit" where
  "raise_for_status r =
     (if 400 \<le> status_code r \<and> status_code r < 600 then Inl (HTTPError (status_code r))
      else Inr ())"

definition print_line :: "string \<Rightarrow> effects \<Rightarrow> effects" where
  "print_line l s = s\<lparr>stdout := stdout s @ [Line l]\<rparr>"

section \<open>discover\_csv\_link\<close>

text \<open>Lines 54-58: the href values that contain \<^verbatim>\<open>.csv\<close>, case-insensitively.\<close>

definition csv_links :: "string list \<Rightarrow> string list" where
  "csv_links hrefs = filter (\<lambda>href. str_in ''.csv'' (str_lower href)) hrefs"

text \<open>Lines 59-64: relative links are joined to the site root.\<close>

definition full_links :: "world \<Rightarrow> string list \<Rightarrow> string list" where
  "full_links w links =
     map (\<lambda>href. if startswith href ''http'' then href else urljoin w SITE_ROOT href) links"

text \<open>Lines 65-68: the loop that returns at the first keyword match.\<close>

definition has_keyword :: "string \<Rightarrow> bool" where
  "has_keyword link = (let low = str_lower link in str_in ''deliver'' low \<or> str_in ''security'' low)"

fun first_keyword_link :: "string list \<Rightarrow> string option" where
  "first_keyword_link [] = None"
| "first_keyword_link (link # rest) =
     (if has_keyword link then Some link else first_keyword_link rest)"

text \<open>Lines 65-71.\<close>

definition select_link :: "string list \<Rightarrow> error + string" where
  "select_link full =
     (case first_keyword_link full of
        Some link \<Rightarrow> Inr link
      | None \<Rightarrow>
          (case full of
             link # _ \<Rightarrow> Inr link
           | [] \<Rightarrow> Inl (RuntimeError
               ''Could not discover CSV link on NSE report page; provide REPORT_CSV_URL env var'')))"

text \<open>Lines 50-71: the warm-up request, the listing page, the selection.\<close>

definition discover_from_page :: "world \<Rightarrow> effects \<Rightarrow> (error + string) \<times> effects" where
  "discover_from_page w s =
     (case http_get w SITE_ROOT s of
        (Inl e, s1) \<Rightarrow> (Inl e, s1)
      | (Inr _, s1) \<Rightarrow>
          (case http_get w REPORT_PAGE_URL s1 of
             (Inl e, s2) \<Rightarrow> (Inl e, s2)
           | (Inr r, s2) \<Rightarrow>
               (case raise_for_status r of
                  Inl e \<Rightarrow> (Inl e, s2)
                | Inr _ \<Rightarrow>
                    (select_link (full_links w (csv_links (anchor_hrefs w (body r)))), s2))))"

text \<open>Lines 46-49: a set, non-empty override is returned as it is.\<close>

definition discover_csv_link :: "world \<Rightarrow> effects \<Rightarrow> (error + string) \<times> effects" where
  "discover_csv_link w s =
     (case getenv w REPORT_CSV_ENV of
        Some env_url \<Rightarrow> if env_url \<noteq> [] then (Inr env_url, s) else discover_from_page w s
      | None \<Rightarrow> discover_from_page w s)"

section \<open>download\_csv\_text\<close>

definition download_csv_text :: "world \<Rightarrow> string \<Rightarrow> effects \<Rightarrow> (error + string) \<times> effects" where
  "download_csv_text w csv_url s =
     (case http_get w csv_url s of
        (Inl e, s1) \<Rightarrow> (Inl e, s1)
      | (Inr r, s1) \<Rightarrow>
          (if status_code r \<noteq> 200 then
             (Inl (RuntimeError (''Failed to download CSV: HTTP '' @ str_nat (status_code r)
                @ '' for '' @ csv_url)), s1)
           else if body r = [] \<or> length (body r) < 50 then
             (Inl (RuntimeError ''Downloaded CSV appears empty or too small''), s1)
           else (Inr (body r), s1)))"

section \<open>parse\_deliverable\_csv\<close>

text \<open>
  Line 84: \<^verbatim>\<open>cols = {c.lower(): c for c in df.columns}\<close>. A Python dict keeps a key at the
  position of its first insertion and overwrites its value at a later one;
  \<open>AList.update\<close> does the same on an association list.
\<close>

definition cols_dict :: "string list \<Rightarrow> (string \<times> string) list" where
  "cols_dict cs = fold (\<lambda>c d. AList.update (str_lower c) c d) cs []"

text \<open>Lines 89, 91 and 93: the three tests on a lowercased header.\<close>

definition is_symbol_key :: "string \<Rightarrow> bool" where
  "is_symbol_key k = (str_in ''symbol'' k \<and> \<not> str_in ''series'' k)"

definition is_traded_key :: "string \<Rightarrow> bool" where
  "is_traded_key k = (str_in ''traded'' k \<and> (str_in ''qty'' k \<or> str_in ''quantity'' k))"

definition is_deliver_key :: "string \<Rightarrow> bool" where
  "is_deliver_key k = (str_in ''deliver'' k \<and> (str_in ''qty'' k \<or> str_in ''quantity'' k))"

text \<open>
  Lines 85-94: the scan over \<^verbatim>\<open>cols.items()\<close>. Each of the three variables is overwritten
  at every item that passes its test; the loop has no \<^verbatim>\<open>break\<close>.
\<close>

type_synonym resolved = "string option \<times> string option \<times> string option"

fun scan_item :: "string \<times> string \<Rightarrow> resolved \<Rightarrow> resolved" where
  "scan_item (k, v) (sym_col, traded_col, deliver_col) =
     (if is_symbol_key k then Some v else sym_col,
      if is_traded_key k then Some v else traded_col,
      if is_deliver_key k then Some v else deliver_col)"

definition resolve_columns :: "string list \<Rightarrow> resolved" where
  "resolve_columns cs = fold scan_item (cols_dict cs) (None, None, None)"

text \<open>\<^verbatim>\<open>not x\<close> for a variable that is \<^verbatim>\<open>None\<close> or a string.\<close>

definition falsy :: "string option \<Rightarrow> bool" where
  "falsy x = (case x of None \<Rightarrow> True | Some v \<Rightarrow> v = [])"

text \<open>\<^verbatim>\<open>df[c]\<close>: the cells of the column named \<open>c\<close>.\<close>

definition index_of :: "string \<Rightarrow> string list \<Rightarrow> nat" where
  "index_of c cs = length (takeWhile (\<lambda>x. x \<noteq> c) cs)"

definition column :: "dataframe \<Rightarrow> string \<Rightarrow> cell list" where
  "column df c =
     map (\<lambda>row. let i = index_of c (columns df) in if i < length row then row ! i else None)
       (cells df)"

text \<open>
  Line 98 calls \<^verbatim>\<open>.str_strip()\<close> on the Series \<^verbatim>\<open>df[sym_col].astype(str)\<close>. A Series has no
  attribute of that name (stripping is \<^verbatim>\<open>.str.strip()\<close>, a method of the \<^verbatim>\<open>.str\<close> accessor),
  and the labels of a \<^verbatim>\<open>RangeIndex\<close> are not attribute names: the lookup raises
  \<^verbatim>\<open>AttributeError\<close> whatever the Series holds. The function therefore never gets past
  this line: lines 99-112 are executed on no input and have no counterpart here.
\<close>

definition symbol_series :: "dataframe \<Rightarrow> string \<Rightarrow> error" where
  "symbol_series df sym_col = AttributeError ''str_strip''"

definition schema_error :: "dataframe \<Rightarrow> error" where
  "schema_error df =
     RuntimeError (''CSV missing expected columns. Found: '' @ join '', '' (columns df))"

definition parse_deliverable_csv :: "world \<Rightarrow> string \<Rightarrow> error + report" where
  "parse_deliverable_csv w csv_text =
     (case read_csv w True csv_text of
        Inl e \<Rightarrow> Inl e
      | Inr df \<Rightarrow>
          (case resolve_columns (columns df) of
             (sym_col, traded_col, deliver_col) \<Rightarrow>
               if falsy sym_col \<or> falsy traded_col \<or> falsy deliver_col then Inl (schema_error df)
               else Inl (symbol_series df (the sym_col))))"

section \<open>filter\_nifty50, write\_excel, fetch\_nifty50\_symbols and main\<close>

text \<open>
  Line 115 uppercases the Symbol column (of the caller's frame too, which \<^verbatim>\<open>main\<close> does not
  read again); line 116 keeps the rows whose symbol is in the set and numbers them anew.
  The reference set holds cells: strings, and the missing cell if the reference column
  had one that stayed missing.
\<close>

definition filter_nifty50 :: "world \<Rightarrow> report \<Rightarrow> cell set \<Rightarrow> report" where
  "filter_nifty50 w out_df nifty_symbols =
     (let upper = map (\<lambda>(i, r). (i, r\<lparr>Symbol := py_upper w (Symbol r)\<rparr>)) out_df;
          kept = filter (\<lambda>(i, r). Some (Symbol r) \<in> nifty_symbols) upper
      in zip [0..<length kept] (map snd kept))"

definition REPORT_COLUMNS :: "string list" where
  "REPORT_COLUMNS = [''Date'', ''Symbol'', ''TradedQty'', ''DeliveryQty'', ''DeliveryPct'']"

definition write_excel :: "report \<Rightarrow> string \<Rightarrow> effects \<Rightarrow> effects" where
  "write_excel df p s =
     print_line (''Wrote '' @ p @ '' rows: '' @ str_nat (length df))
       (s\<lparr>written := written s @
            [\<lparr>path = p, sheet_name = ''Delivery'', header = REPORT_COLUMNS,
              sheet_rows = map snd df\<rparr>]\<rparr>)"

definition fetch_nifty50_symbols :: "world \<Rightarrow> effects \<Rightarrow> (error + cell set) \<times> effects" where
  "fetch_nifty50_symbols w s =
     (case http_get w NIFTY50_CSV s of
        (Inl e, s1) \<Rightarrow> (Inl e, s1)
      | (Inr r, s1) \<Rightarrow>
          (case raise_for_status r of
             Inl e \<Rightarrow> (Inl e, s1)
           | Inr _ \<Rightarrow>
               (case read_csv w False (body r) of
                  Inl e \<Rightarrow> (Inl e, s1)
                | Inr df \<Rightarrow>
                    (case find (\<lambda>c. str_in ''symbol'' (str_lower c)) (columns df) of
                       None \<Rightarrow>
                         (Inl (RuntimeError
                            (''Couldn'' @ [CHR 0x27] @ ''t find symbol column in NIFTY50 CSV'')), s1)
                     | Some sym_col \<Rightarrow>
                         (Inr (set (map (clean_symbol w) (column df sym_col))), s1)))))"

text \<open>Lines 133-137 of \<^verbatim>\<open>main\<close>: what would follow a parse that returned.\<close>

definition filter_and_write ::
  "world \<Rightarrow> report \<Rightarrow> cell set \<Rightarrow> effects \<Rightarrow> (error + unit) \<times> effects" where
  "filter_and_write w df nifty_symbols s =
     (let s1 = print_line ''Filtering to NIFTY-50...'' s;
          df_nifty = filter_nifty50 w df nifty_symbols;
          s2 = (if df_nifty = [] then
                  print_line ''Warning: no NIFTY-50 rows matched. Check CSV format or symbol cases.'' s1
                else s1)
      in (Inr (), write_excel df_nifty OUT_FILE s2))"

text \<open>Lines 125-137: the body of the \<^verbatim>\<open>try\<close>.\<close>

definition main_try :: "world \<Rightarrow> effects \<Rightarrow> (error + unit) \<times> effects" where
  "main_try w s0 =
     (case fetch_nifty50_symbols w (print_line ''Fetching NIFTY-50 list...'' s0) of
        (Inl e, s1) \<Rightarrow> (Inl e, s1)
      | (Inr nifty_symbols, s1) \<Rightarrow>
          (case discover_csv_link w (print_line ''Discovering deliverable CSV link...'' s1) of
             (Inl e, s2) \<Rightarrow> (Inl e, s2)
           | (Inr csv_link, s2) \<Rightarrow>
               (case download_csv_text w csv_link (print_line (''CSV link: '' @ csv_link) s2) of
                  (Inl e, s3) \<Rightarrow> (Inl e, s3)
                | (Inr csv_text, s3) \<Rightarrow>
                    (let s4 = print_line ''Parsing CSV...'' s3
                     in case parse_deliverable_csv w csv_text of
                          Inl e \<Rightarrow> (Inl e, s4)
                        | Inr df \<Rightarrow> filter_and_write w df nifty_symbols s4))))"

text \<open>
  \<^verbatim>\<open>main\<close>: the exit status of the process and the effects of the run. An exception is
  printed after \<^verbatim>\<open>ERROR:\<close> and the process exits with status 2.
\<close>

definition main :: "world \<Rightarrow> nat \<times> effects" where
  "main w =
     (case main_try w \<lparr>requested = [], stdout = [], written = []\<rparr> of
        (Inr _, s) \<Rightarrow> (0, s)
      | (Inl e, s) \<Rightarrow> (2, s\<lparr>stdout := stdout s @ [ErrorLine e]\<rparr>))"

section \<open>Reference notions for the column resolution\<close>

text \<open>
  The notions the statements about lines 84-94 are written in. \<open>first_occurrences\<close>
  keeps the first copy of every element; \<open>last_value_where P d\<close> is the value of the last
  entry of the dictionary \<open>d\<close> whose key passes \<open>P\<close>; \<open>last_header_where P cs\<close> is the
  last header, in column order, whose lowercased name passes \<open>P\<close>.
\<close>

definition first_occurrences :: "'a list \<Rightarrow> 'a list" where
  "first_occurrences xs = rev (remdups (rev xs))"

definition last_value_where :: "(string \<Rightarrow> bool) \<Rightarrow> (string \<times> string) list \<Rightarrow> string option" where
  "last_value_where P d =
     (case filter (\<lambda>kv. P (fst kv)) d of [] \<Rightarrow> None | kvs \<Rightarrow> Some (snd (last kvs)))"


text \<open>Every one of the three mandatory columns has a header that passes its test.\<close>

definition all_resolved :: "string list \<Rightarrow> bool" where
  "all_resolved cs \<longleftrightarrow>
     list_ex (\<lambda>c. is_symbol_key (str_lower c)) cs
     \<and> list_ex (\<lambda>c. is_traded_key (str_lower c)) cs
     \<and> list_ex (\<lambda>c. is_deliver_key (str_lower c)) cs"

section \<open>Example inputs\<close>

text \<open>
  A small world for concrete runs: the reference list names TCS and INFY, the listing page
  has the anchors \<open>hrefs\<close>, the deliverable resource holds \<open>csv\<close>, which \<^verbatim>\<open>pd.read_csv\<close> reads
  as \<open>df\<close>, and \<^verbatim>\<open>urljoin\<close> joins a rooted path to the site root. Every string of these
  examples is ASCII and no cell is missing; on such cells stripping and uppercasing act as
  \<open>example_strip\<close> and \<open>example_upper\<close> do.
\<close>

definition example_upper :: "string \<Rightarrow> string" where
  "example_upper s =
     map (\<lambda>c. let n = (of_char c :: nat) in if 97 \<le> n \<and> n \<le> 122 then char_of (n - 32) else c) s"

definition example_strip :: "string \<Rightarrow> string" where
  "example_strip s =
     rev (dropWhile (\<lambda>c. c = CHR '' '') (rev (dropWhile (\<lambda>c. c = CHR '' '') s)))"

definition example_nifty_csv :: string where
  "example_nifty_csv = ''Company Name,Industry,Symbol\<newline>Tata Consultancy,IT,TCS\<newline>Infosys,IT,INFY\<newline>''"

definition example_nifty_frame :: dataframe where
  "example_nifty_frame =
     \<lparr>columns = [''Company Name'', ''Industry'', ''Symbol''],
      cells = [[Some ''Tata Consultancy'', Some ''IT'', Some ''TCS''],
               [Some ''Infosys'', Some ''IT'', Some ''INFY'']]\<rparr>"

definition example_csv :: string where
  "example_csv =
     ''Symbol,Traded Qty,Deliverable Qty\<newline>TCS,1000,400\<newline>WIPRO,500,250\<newline>INFY,0,0\<newline>''"

definition example_frame :: dataframe where
  "example_frame =
     \<lparr>columns = [''Symbol'', ''Traded Qty'', ''Deliverable Qty''],
      cells = [[Some ''TCS'', Some ''1000'', Some ''400''],
               [Some ''WIPRO'', Some ''500'', Some ''250''],
               [Some ''INFY'', Some ''0'', Some ''0'']]\<rparr>"

definition renamed_csv :: string where
  "renamed_csv =
     ''Symbol,Traded Qty,Del. Amount\<newline>TCS,1000,400\<newline>WIPRO,500,250\<newline>INFY,0,0\<newline>''"

definition renamed_frame :: dataframe where
  "renamed_frame =
     \<lparr>columns = [''Symbol'', ''Traded Qty'', ''Del. Amount''],
      cells = [[Some ''TCS'', Some ''1000'', Some ''400''],
               [Some ''WIPRO'', Some ''500'', Some ''250''],
               [Some ''INFY'', Some ''0'', Some ''0'']]\<rparr>"

definition example_links :: "string list" where
  "example_links = [''/a/foo.csv'', ''/b/security-deliverable.csv'']"

definition example_http :: "string \<Rightarrow> string list \<Rightarrow> string \<Rightarrow> error + response" where
  "example_http csv hist url =
     (if url = NIFTY50_CSV then Inr \<lparr>status_code = 200, body = example_nifty_csv\<rparr>
      else if url = SITE_ROOT \<or> url = REPORT_PAGE_URL then
        Inr \<lparr>status_code = 200, body = ''<html>listing</html>''\<rparr>
      else if url = SITE_ROOT @ ''/b/security-deliverable.csv'' then
        Inr \<lparr>status_code = 200, body = csv\<rparr>
      else Inr \<lparr>status_code = 404, body = ''Not Found''\<rparr>)"

definition example_world :: "string option \<Rightarrow> string list \<Rightarrow> string \<Rightarrow> dataframe \<Rightarrow> world" where
  "example_world env hrefs csv df =
     \<lparr>getenv = (\<lambda>name. if name = REPORT_CSV_ENV then env else None),
      http = example_http csv,
      anchor_hrefs = (\<lambda>page. hrefs),
      urljoin = (\<lambda>base href. base @ href),
      read_csv = (\<lambda>dtype_str x.
        if dtype_str then (if x = csv then Inr df else Inl (PandasError ''unexpected text''))
        else Inr example_nifty_frame),
      clean_symbol = map_option (\<lambda>x. example_upper (example_strip x)),
      py_upper = example_upper\<rparr>"

definition no_effects :: effects where
  "no_effects = \<lparr>requested = [], stdout = [], written = []\<rparr>"



definition unmatched_csv :: string where
  "unmatched_csv =
     ''Symbol,Traded Qty,Deliverable Qty\<newline>ACC,1000,400\<newline>WIPRO,500,250\<newline>''"

definition unmatched_frame :: dataframe where
  "unmatched_frame =
     \<lparr>columns = [''Symbol'', ''Traded Qty'', ''Deliverable Qty''],
      cells = [[Some ''ACC'', Some ''1000'', Some ''400''],
               [Some ''WIPRO'', Some ''500'', Some ''250'']]\<rparr>"



section \<open>Substring test\<close>

lemma startswith_iff: "startswith s p \<longleftrightarrow> (\<exists>post. s = p @ post)"
  unfolding startswith_def
  by (metis append_eq_conv_conj append_take_drop_id)

lemma str_in_iff: "str_in sub s \<longleftrightarrow> (\<exists>pre post. s = pre @ sub @ post)"
proof (induction s)
  case Nil
  then show ?case by auto
next
  case (Cons c cs)
  show ?case
  proof
    assume "str_in sub (c # cs)"
    then consider "startswith (c # cs) sub" | "str_in sub cs" by auto
    then show "\<exists>pre post. c # cs = pre @ sub @ post"
    proof cases
      case 1
      then obtain post where "c # cs = sub @ post" by (auto simp: startswith_iff)
      then have "c # cs = [] @ sub @ post" by simp
      then show ?thesis by blast
    next
      case 2
      then obtain pre post where "cs = pre @ sub @ post" using Cons.IH by auto
      then have "c # cs = (c # pre) @ sub @ post" by simp
      then show ?thesis by blast
    qed
  next
    assume "\<exists>pre post. c # cs = pre @ sub @ post"
    then obtain pre post where e: "c # cs = pre @ sub @ post" by auto
    show "str_in sub (c # cs)"
    proof (cases pre)
      case Nil
      then have "startswith (c # cs) sub" using e by (auto simp: startswith_iff)
      then show ?thesis by simp
    next
      case (Cons a pre')
      then have "cs = pre' @ sub @ post" using e by simp
      then have "str_in sub cs" using Cons.IH by blast
      then show ?thesis by simp
    qed
  qed
qed

section \<open>The dictionary of lowercased headers and the scan\<close>

lemma last_value_where_Cons:
  "last_value_where P ((k, v) # d) =
     (case last_value_where P d of None \<Rightarrow> (if P k then Some v else None) | Some u \<Rightarrow> Some u)"
  by (simp add: last_value_where_def split: list.splits)

lemma fold_scan_item:
  "fold scan_item d (a, b, c) =
     (case last_value_where is_symbol_key d of None \<Rightarrow> a | Some v \<Rightarrow> Some v,
      case last_value_where is_traded_key d of None \<Rightarrow> b | Some v \<Rightarrow> Some v,
      case last_value_where is_deliver_key d of None \<Rightarrow> c | Some v \<Rightarrow> Some v)"
proof (induction d arbitrary: a b c)
  case Nil
  show ?case by (simp add: last_value_where_def)
next
  case (Cons kv d)
  obtain k v where kv: "kv = (k, v)" by (cases kv)
  show ?case
    unfolding kv by (simp add: Cons.IH last_value_where_Cons split: option.splits)
qed

lemma resolve_columns_last_value:
  "resolve_columns cs =
     (last_value_where is_symbol_key (cols_dict cs),
      last_value_where is_traded_key (cols_dict cs),
      last_value_where is_deliver_key (cols_dict cs))"
  unfolding resolve_columns_def fold_scan_item by (simp split: option.splits)

lemma cols_dict_snoc: "cols_dict (cs @ [c]) = AList.update (str_lower c) c (cols_dict cs)"
  by (simp add: cols_dict_def)

lemma cols_dict_Nil: "cols_dict [] = []"
  by (simp add: cols_dict_def)

lemma cols_dict_keys_set: "fst ` set (cols_dict cs) = str_lower ` set cs"
  by (induction cs rule: rev_induct) (auto simp: cols_dict_Nil cols_dict_snoc dom_update)

lemma cols_dict_distinct: "distinct (map fst (cols_dict cs))"
  by (induction cs rule: rev_induct) (simp_all add: cols_dict_Nil cols_dict_snoc distinct_update)


lemma set_first_occurrences: "set (first_occurrences xs) = set xs"
  by (simp add: first_occurrences_def)


lemma cols_dict_lookup:
  "map_of (cols_dict cs) k =
     (if filter (\<lambda>c. str_lower c = k) cs = [] then None
      else Some (last (filter (\<lambda>c. str_lower c = k) cs)))"
proof (induction cs rule: rev_induct)
  case Nil
  show ?case by (simp add: cols_dict_Nil)
next
  case (snoc c cs)
  show ?case
    by (simp add: cols_dict_snoc update_conv' snoc.IH)
qed

lemma cols_dict_entry:
  assumes "(k, v) \<in> set (cols_dict cs)"
  shows "v \<in> set cs \<and> str_lower v = k"
proof -
  let ?ms = "filter (\<lambda>c. str_lower c = k) cs"
  have "map_of (cols_dict cs) k = Some v"
    using assms cols_dict_distinct by simp
  then have ms: "?ms \<noteq> []" "v = last ?ms"
    by (auto simp: cols_dict_lookup split: if_splits)
  then have "v \<in> set ?ms"
    using last_in_set by blast
  then show ?thesis by simp
qed




lemma last_value_where_alt:
  "last_value_where P d =
     (if filter (\<lambda>kv. P (fst kv)) d = [] then None
      else Some (snd (last (filter (\<lambda>kv. P (fst kv)) d))))"
  by (simp add: last_value_where_def split: list.splits)

lemma last_value_where_None:
  "last_value_where P (cols_dict cs) = None \<longleftrightarrow> \<not> list_ex (\<lambda>c. P (str_lower c)) cs"
proof -
  have "last_value_where P (cols_dict cs) = None \<longleftrightarrow> (\<forall>k \<in> fst ` set (cols_dict cs). \<not> P k)"
    by (auto simp: last_value_where_alt filter_empty_conv)
  then show ?thesis
    by (simp add: cols_dict_keys_set list_ex_iff)
qed

lemma last_value_where_Some:
  assumes "last_value_where P (cols_dict cs) = Some v"
  shows "v \<in> set cs \<and> P (str_lower v)"
proof -
  let ?kvs = "filter (\<lambda>kv. P (fst kv)) (cols_dict cs)"
  have kvs: "?kvs \<noteq> []" "v = snd (last ?kvs)"
    using assms by (auto simp: last_value_where_alt split: if_splits)
  then have "last ?kvs \<in> set ?kvs"
    using last_in_set by blast
  then have "(fst (last ?kvs), v) \<in> set (cols_dict cs)" "P (fst (last ?kvs))"
    using kvs by auto
  then show ?thesis using cols_dict_entry by metis
qed

section \<open>Link discovery and download\<close>

lemma first_keyword_link_None:
  "first_keyword_link full = None \<longleftrightarrow> list_all (\<lambda>l. \<not> has_keyword l) full"
  by (induction full) auto

lemma first_keyword_link_first:
  "list_all (\<lambda>l. \<not> has_keyword l) pre \<Longrightarrow> has_keyword link \<Longrightarrow>
   first_keyword_link (pre @ link # post) = Some link"
  by (induction pre) auto

lemma discover_from_page_select:
  assumes "http w (requested s) SITE_ROOT = Inr r0"
      and "http w (requested s @ [SITE_ROOT]) REPORT_PAGE_URL = Inr r"
      and "raise_for_status r = Inr ()"
  shows "discover_from_page w s =
           (select_link (full_links w (csv_links (anchor_hrefs w (body r)))),
            s\<lparr>requested := requested s @ [SITE_ROOT, REPORT_PAGE_URL]\<rparr>)"
  using assms by (simp add: discover_from_page_def http_get_def)

text \<open>
  C8: when the configuration value \<^verbatim>\<open>REPORT_CSV_URL\<close> is set and not empty,
  \<open>discover_csv_link\<close> returns it unchanged, whatever it holds, and discovery is bypassed:
  the effects of the run are as before, so neither the warm-up request nor the request of
  the listing page is made.
\<close>

theorem discover_csv_link_override:
  assumes "getenv w REPORT_CSV_ENV = Some env_url" and "env_url \<noteq> []"
  shows "discover_csv_link w s = (Inr env_url, s)
         \<and> requested (snd (discover_csv_link w s)) = requested s"
  using assms by (simp add: discover_csv_link_def)

theorem discover_csv_link_override_witness:
  "getenv (example_world (Some ''not a url'') example_links example_csv example_frame)
       REPORT_CSV_ENV = Some ''not a url''
   \<and> ''not a url'' \<noteq> []
   \<and> discover_csv_link (example_world (Some ''not a url'') example_links example_csv example_frame)
         no_effects = (Inr ''not a url'', no_effects)
   \<and> requested (snd (discover_csv_link
         (example_world (Some ''not a url'') example_links example_csv example_frame) no_effects)) = []"
proof -
  let ?w = "example_world (Some ''not a url'') example_links example_csv example_frame"
  have e: "getenv ?w REPORT_CSV_ENV = Some ''not a url''"
    by (simp add: example_world_def)
  have n: "''not a url'' \<noteq> []" by simp
  show ?thesis
    using discover_csv_link_override [OF e n, of no_effects] e
    by (simp add: no_effects_def)
qed

text \<open>
  C4: with no override set, and once the warm-up request and the listing page have been
  answered, \<open>discover_csv_link\<close> selects among the absolutized \<^verbatim>\<open>.csv\<close> links \<open>full\<close>:
  (a) the first link whose lowercased value contains \<^verbatim>\<open>deliver\<close> or \<^verbatim>\<open>security\<close>;
  (b) the first link of the page when no link has a keyword; (c) it fails with the
  discovery error when there is no candidate link. For the anchors \<^verbatim>\<open>/a/foo.csv\<close> and
  \<^verbatim>\<open>/b/security-deliverable.csv\<close>, joined to the site root as \<^verbatim>\<open>urljoin\<close> joins rooted
  paths, the second is returned; with \<^verbatim>\<open>/a/foo.csv\<close> alone, that one is.
\<close>

theorem discover_csv_link_policy:
  assumes env: "getenv w REPORT_CSV_ENV = None \<or> getenv w REPORT_CSV_ENV = Some []"
      and warm: "http w (requested s) SITE_ROOT = Inr r0"
      and page: "http w (requested s @ [SITE_ROOT]) REPORT_PAGE_URL = Inr r"
      and ok: "raise_for_status r = Inr ()"
      and full: "full = full_links w (csv_links (anchor_hrefs w (body r)))"
  shows "(full = pre @ link # post \<and> list_all (\<lambda>l. \<not> has_keyword l) pre \<and> has_keyword link
            \<longrightarrow> fst (discover_csv_link w s) = Inr link)
       \<and> (full = link # post \<and> list_all (\<lambda>l. \<not> has_keyword l) full
            \<longrightarrow> fst (discover_csv_link w s) = Inr link)
       \<and> (full = []
            \<longrightarrow> fst (discover_csv_link w s) = Inl (RuntimeError
                  ''Could not discover CSV link on NSE report page; provide REPORT_CSV_URL env var''))
       \<and> (anchor_hrefs w (body r) = [''/a/foo.csv'', ''/b/security-deliverable.csv'']
            \<and> urljoin w SITE_ROOT ''/a/foo.csv'' = SITE_ROOT @ ''/a/foo.csv''
            \<and> urljoin w SITE_ROOT ''/b/security-deliverable.csv''
                = SITE_ROOT @ ''/b/security-deliverable.csv''
            \<longrightarrow> fst (discover_csv_link w s) = Inr (SITE_ROOT @ ''/b/security-deliverable.csv''))
       \<and> (anchor_hrefs w (body r) = [''/a/foo.csv'']
            \<longrightarrow> fst (discover_csv_link w s) = Inr (urljoin w SITE_ROOT ''/a/foo.csv''))"
proof -
  have d: "fst (discover_csv_link w s) = select_link full"
    using env discover_from_page_select [OF warm page ok]
    by (auto simp: discover_csv_link_def full)
  have a: "full = pre @ link # post \<and> list_all (\<lambda>l. \<not> has_keyword l) pre \<and> has_keyword link
            \<longrightarrow> select_link full = Inr link"
    by (auto simp: select_link_def first_keyword_link_first)
  have b: "full = link # post \<and> list_all (\<lambda>l. \<not> has_keyword l) full
            \<longrightarrow> select_link full = Inr link"
  proof
    assume h: "full = link # post \<and> list_all (\<lambda>l. \<not> has_keyword l) full"
    then have "list_all (\<lambda>l. \<not> has_keyword l) full" by blast
    then have "first_keyword_link full = None" by (simp only: first_keyword_link_None)
    then show "select_link full = Inr link" using h by (simp add: select_link_def)
  qed
  have c: "full = [] \<longrightarrow> select_link full = Inl (RuntimeError
             ''Could not discover CSV link on NSE report page; provide REPORT_CSV_URL env var'')"
    by (simp add: select_link_def)
  have e1: "anchor_hrefs w (body r) = [''/a/foo.csv'', ''/b/security-deliverable.csv'']
            \<and> urljoin w SITE_ROOT ''/a/foo.csv'' = SITE_ROOT @ ''/a/foo.csv''
            \<and> urljoin w SITE_ROOT ''/b/security-deliverable.csv''
                = SITE_ROOT @ ''/b/security-deliverable.csv''
            \<longrightarrow> select_link full = Inr (SITE_ROOT @ ''/b/security-deliverable.csv'')"
  proof
    assume h: "anchor_hrefs w (body r) = [''/a/foo.csv'', ''/b/security-deliverable.csv'']
            \<and> urljoin w SITE_ROOT ''/a/foo.csv'' = SITE_ROOT @ ''/a/foo.csv''
            \<and> urljoin w SITE_ROOT ''/b/security-deliverable.csv''
                = SITE_ROOT @ ''/b/security-deliverable.csv''"
    have c1: "csv_links [''/a/foo.csv'', ''/b/security-deliverable.csv'']
               = [''/a/foo.csv'', ''/b/security-deliverable.csv'']"
      by code_simp
    have f: "full = [SITE_ROOT @ ''/a/foo.csv'', SITE_ROOT @ ''/b/security-deliverable.csv'']"
      using h by (simp add: full c1 full_links_def startswith_def)
    have "select_link [SITE_ROOT @ ''/a/foo.csv'', SITE_ROOT @ ''/b/security-deliverable.csv'']
            = Inr (SITE_ROOT @ ''/b/security-deliverable.csv'')"
      by code_simp
    then show "select_link full = Inr (SITE_ROOT @ ''/b/security-deliverable.csv'')"
      by (simp only: f)
  qed
  have e2: "anchor_hrefs w (body r) = [''/a/foo.csv'']
            \<longrightarrow> select_link full = Inr (urljoin w SITE_ROOT ''/a/foo.csv'')"
  proof
    assume h: "anchor_hrefs w (body r) = [''/a/foo.csv'']"
    have c1: "csv_links [''/a/foo.csv''] = [''/a/foo.csv'']"
      by code_simp
    have f: "full = [urljoin w SITE_ROOT ''/a/foo.csv'']"
      using h by (simp add: full c1 full_links_def startswith_def)
    show "select_link full = Inr (urljoin w SITE_ROOT ''/a/foo.csv'')"
      unfolding f by (simp add: select_link_def)
  qed
  show ?thesis
    unfolding d using a b c e1 e2 by blast
qed

lemma example_has_keyword:
  "has_keyword (SITE_ROOT @ ''/b/security-deliverable.csv'')"
  "\<not> has_keyword (SITE_ROOT @ ''/a/foo.csv'')"
  by code_simp+

lemma example_csv_links:
  "csv_links example_links = example_links"
  "csv_links [''/a/foo.csv''] = [''/a/foo.csv'']"
  "csv_links [''/about.html''] = []"
  by code_simp+

lemma example_world_page:
  "getenv (example_world None hrefs csv df) REPORT_CSV_ENV = None
     \<or> getenv (example_world None hrefs csv df) REPORT_CSV_ENV = Some []"
  "http (example_world None hrefs csv df) (requested no_effects) SITE_ROOT
     = Inr \<lparr>status_code = 200, body = ''<html>listing</html>''\<rparr>"
  "http (example_world None hrefs csv df) (requested no_effects @ [SITE_ROOT]) REPORT_PAGE_URL
     = Inr \<lparr>status_code = 200, body = ''<html>listing</html>''\<rparr>"
  "raise_for_status \<lparr>status_code = 200, body = ''<html>listing</html>''\<rparr> = Inr ()"
  "anchor_hrefs (example_world None hrefs csv df) page = hrefs"
  "urljoin (example_world None hrefs csv df) base href = base @ href"
  by (simp_all add: example_world_def example_http_def SITE_ROOT_def NIFTY50_CSV_def
      REPORT_PAGE_URL_def raise_for_status_def)

theorem discover_csv_link_policy_witness:
  "getenv (example_world None example_links example_csv example_frame) REPORT_CSV_ENV = None
   \<and> anchor_hrefs (example_world None example_links example_csv example_frame)
        ''<html>listing</html>'' = [''/a/foo.csv'', ''/b/security-deliverable.csv'']
   \<and> list_all (\<lambda>l. \<not> has_keyword l) [SITE_ROOT @ ''/a/foo.csv'']
   \<and> has_keyword (SITE_ROOT @ ''/b/security-deliverable.csv'')
   \<and> fst (discover_csv_link (example_world None example_links example_csv example_frame) no_effects)
       = Inr (SITE_ROOT @ ''/b/security-deliverable.csv'')
   \<and> fst (discover_csv_link (example_world None [''/a/foo.csv''] example_csv example_frame)
         no_effects)
       = Inr (SITE_ROOT @ ''/a/foo.csv'')
   \<and> fst (discover_csv_link (example_world None [''/about.html''] example_csv example_frame)
         no_effects)
       = Inl (RuntimeError
           ''Could not discover CSV link on NSE report page; provide REPORT_CSV_URL env var'')"
proof -
  let ?wtwo = "example_world None example_links example_csv example_frame"
  let ?wone = "example_world None [''/a/foo.csv''] example_csv example_frame"
  let ?wnone = "example_world None [''/about.html''] example_csv example_frame"
  let ?r = "\<lparr>status_code = 200, body = ''<html>listing</html>''\<rparr>"
  let ?full = "[SITE_ROOT @ ''/a/foo.csv'', SITE_ROOT @ ''/b/security-deliverable.csv'']"
  have full: "?full = full_links ?wtwo (csv_links (anchor_hrefs ?wtwo (body ?r)))"
    unfolding example_world_page(5) example_csv_links
    by (simp add: full_links_def example_links_def example_world_def startswith_def)
  have full1: "[SITE_ROOT @ ''/a/foo.csv''] = full_links ?wone (csv_links (anchor_hrefs ?wone (body ?r)))"
    unfolding example_world_page(5) example_csv_links
    by (simp add: full_links_def example_world_def startswith_def)
  have full0: "[] = full_links ?wnone (csv_links (anchor_hrefs ?wnone (body ?r)))"
    unfolding example_world_page(5) example_csv_links
    by (simp add: full_links_def)
  have pre: "list_all (\<lambda>l. \<not> has_keyword l) [SITE_ROOT @ ''/a/foo.csv'']"
    using example_has_keyword by simp
  have split: "?full = [SITE_ROOT @ ''/a/foo.csv''] @ (SITE_ROOT @ ''/b/security-deliverable.csv'') # []"
    by simp
  have res: "fst (discover_csv_link ?wtwo no_effects) = Inr (SITE_ROOT @ ''/b/security-deliverable.csv'')"
    using discover_csv_link_policy [OF example_world_page(1-4) full,
        of "[SITE_ROOT @ ''/a/foo.csv'']" "SITE_ROOT @ ''/b/security-deliverable.csv''" "[]"]
      pre example_has_keyword(1) split
    by blast
  have res1: "fst (discover_csv_link ?wone no_effects) = Inr (SITE_ROOT @ ''/a/foo.csv'')"
    using discover_csv_link_policy [OF example_world_page(1-4) full1,
        of "[]" "SITE_ROOT @ ''/a/foo.csv''" "[]"] pre
    by simp
  have res0: "fst (discover_csv_link ?wnone no_effects) = Inl (RuntimeError
           ''Could not discover CSV link on NSE report page; provide REPORT_CSV_URL env var'')"
    using discover_csv_link_policy [OF example_world_page(1-4) full0, of "[]" "[]" "[]"]
    by blast
  have e: "getenv ?wtwo REPORT_CSV_ENV = None"
    by (simp add: example_world_def)
  have h: "anchor_hrefs ?wtwo ''<html>listing</html>'' = [''/a/foo.csv'', ''/b/security-deliverable.csv'']"
    by (simp add: example_world_def example_links_def)
  show ?thesis
    using res res1 res0 e h pre example_has_keyword(1) by blast
qed

text \<open>
  C7: when the GET is answered, \<open>download_csv_text\<close> returns the body as it is if and only
  if the status is 200 and the body has at least 50 characters. The checks run in the order
  the contract lists them: a status other than 200 fails with the download error that
  carries the status (and the URL); with status 200, an empty body or one shorter than 50
  characters fails with the empty-response error.
\<close>

theorem download_csv_text_contract:
  assumes "http w (requested s) csv_url = Inr r"
  shows "(fst (download_csv_text w csv_url s) = Inr t
            \<longleftrightarrow> status_code r = 200 \<and> 50 \<le> length (body r) \<and> t = body r)
       \<and> (status_code r \<noteq> 200 \<longrightarrow>
            fst (download_csv_text w csv_url s) =
              Inl (RuntimeError (''Failed to download CSV: HTTP '' @ str_nat (status_code r)
                     @ '' for '' @ csv_url)))
       \<and> (status_code r = 200 \<and> (body r = [] \<or> length (body r) < 50) \<longrightarrow>
            fst (download_csv_text w csv_url s) =
              Inl (RuntimeError ''Downloaded CSV appears empty or too small''))"
  using assms by (auto simp: download_csv_text_def http_get_def)

theorem download_csv_text_contract_witness:
  "http (example_world None example_links example_csv example_frame) (requested no_effects)
       (SITE_ROOT @ ''/b/security-deliverable.csv'')
     = Inr \<lparr>status_code = 200, body = example_csv\<rparr>
   \<and> fst (download_csv_text (example_world None example_links example_csv example_frame)
            (SITE_ROOT @ ''/b/security-deliverable.csv'') no_effects) = Inr example_csv
   \<and> http (example_world None example_links example_csv example_frame) (requested no_effects)
       (SITE_ROOT @ ''/a/foo.csv'')
     = Inr \<lparr>status_code = 404, body = ''Not Found''\<rparr>
   \<and> fst (download_csv_text (example_world None example_links example_csv example_frame)
            (SITE_ROOT @ ''/a/foo.csv'') no_effects)
     = Inl (RuntimeError ''Failed to download CSV: HTTP 404 for https://www.nseindia.com/a/foo.csv'')
   \<and> http (example_world None example_links example_csv example_frame) (requested no_effects)
       SITE_ROOT
     = Inr \<lparr>status_code = 200, body = ''<html>listing</html>''\<rparr>
   \<and> fst (download_csv_text (example_world None example_links example_csv example_frame)
            SITE_ROOT no_effects)
     = Inl (RuntimeError ''Downloaded CSV appears empty or too small'')"
proof -
  let ?w = "example_world None example_links example_csv example_frame"
  have h1: "http ?w (requested no_effects) (SITE_ROOT @ ''/b/security-deliverable.csv'')
              = Inr \<lparr>status_code = 200, body = example_csv\<rparr>"
    by (simp add: example_world_def example_http_def SITE_ROOT_def NIFTY50_CSV_def REPORT_PAGE_URL_def)
  have h2: "http ?w (requested no_effects) (SITE_ROOT @ ''/a/foo.csv'')
              = Inr \<lparr>status_code = 404, body = ''Not Found''\<rparr>"
    by (simp add: example_world_def example_http_def SITE_ROOT_def NIFTY50_CSV_def REPORT_PAGE_URL_def)
  have h3: "http ?w (requested no_effects) SITE_ROOT
              = Inr \<lparr>status_code = 200, body = ''<html>listing</html>''\<rparr>"
    by (simp add: example_world_def example_http_def SITE_ROOT_def NIFTY50_CSV_def REPORT_PAGE_URL_def)
  have len: "50 \<le> length example_csv" by (simp add: example_csv_def)
  have s404: "str_nat 404 = ''404''" by code_simp
  show ?thesis
    using download_csv_text_contract [OF h1, of example_csv]
      download_csv_text_contract [OF h2, of "[]"]
      download_csv_text_contract [OF h3, of "[]"] h1 h2 h3 len s404
    by (simp add: SITE_ROOT_def)
qed

section \<open>Parsing: schema errors and line 98\<close>

lemma falsy_last_value_where:
  assumes "\<not> P []"
  shows "falsy (last_value_where P (cols_dict cs)) \<longleftrightarrow> \<not> list_ex (\<lambda>c. P (str_lower c)) cs"
proof (cases "last_value_where P (cols_dict cs)")
  case None
  then show ?thesis using last_value_where_None [of P cs] by (simp add: falsy_def)
next
  case (Some v)
  then have v: "v \<in> set cs" "P (str_lower v)" using last_value_where_Some by blast+
  then have "v \<noteq> []" using assms by (auto simp: str_lower_def)
  moreover have "list_ex (\<lambda>c. P (str_lower c)) cs" using v by (auto simp: list_ex_iff)
  ultimately show ?thesis using Some by (simp add: falsy_def)
qed

lemma keys_reject_empty:
  "\<not> is_symbol_key []" "\<not> is_traded_key []" "\<not> is_deliver_key []"
  by (simp_all add: is_symbol_key_def is_traded_key_def is_deliver_key_def)

lemma parse_deliverable_csv_cases:
  assumes "read_csv w True csv_text = Inr df"
  shows "parse_deliverable_csv w csv_text =
           (if all_resolved (columns df) then Inl (AttributeError ''str_strip'')
            else Inl (schema_error df))"
  using assms
  by (simp add: parse_deliverable_csv_def resolve_columns_last_value all_resolved_def
      falsy_last_value_where keys_reject_empty symbol_series_def)

lemma parse_deliverable_csv_raises: "parse_deliverable_csv w csv_text \<noteq> Inr rep"
proof (cases "read_csv w True csv_text")
  case (Inl e)
  then show ?thesis by (simp add: parse_deliverable_csv_def)
next
  case (Inr df)
  then show ?thesis by (simp add: parse_deliverable_csv_cases)
qed

lemma http_get_written: "written (snd (http_get w url s)) = written s"
  by (simp add: http_get_def)

lemma fetch_nifty50_symbols_written: "written (snd (fetch_nifty50_symbols w s)) = written s"
  by (simp add: fetch_nifty50_symbols_def http_get_def split: sum.splits option.splits)

lemma discover_csv_link_written: "written (snd (discover_csv_link w s)) = written s"
  by (simp add: discover_csv_link_def discover_from_page_def http_get_def
      split: sum.splits option.splits)

lemma download_csv_text_written: "written (snd (download_csv_text w u s)) = written s"
  by (simp add: download_csv_text_def http_get_def split: sum.splits)

lemma print_line_written: "written (print_line l s) = written s"
  by (simp add: print_line_def)

lemma main_parse_failure:
  assumes f: "fetch_nifty50_symbols w (print_line ''Fetching NIFTY-50 list...'' no_effects)
                = (Inr nifty_symbols, s1)"
      and d: "discover_csv_link w (print_line ''Discovering deliverable CSV link...'' s1)
                = (Inr csv_link, s2)"
      and g: "download_csv_text w csv_link (print_line (''CSV link: '' @ csv_link) s2)
                = (Inr csv_text, s3)"
      and p: "parse_deliverable_csv w csv_text = Inl e"
  shows "main w = (2, s3\<lparr>stdout := stdout s3 @ [Line ''Parsing CSV...'', ErrorLine e]\<rparr>)
         \<and> written s3 = []"
proof -
  have "written s1 = []"
    using fetch_nifty50_symbols_written [of w "print_line ''Fetching NIFTY-50 list...'' no_effects"] f
    by (simp add: print_line_written no_effects_def)
  then have "written s2 = []"
    using discover_csv_link_written [of w "print_line ''Discovering deliverable CSV link...'' s1"] d
    by (simp add: print_line_written)
  then have w3: "written s3 = []"
    using download_csv_text_written [of w csv_link "print_line (''CSV link: '' @ csv_link) s2"] g
    by (simp add: print_line_written)
  have "main_try w no_effects = (Inl e, print_line ''Parsing CSV...'' s3)"
    using f d g p by (simp add: main_try_def)
  then have "main w = (2, s3\<lparr>stdout := stdout s3 @ [Line ''Parsing CSV...'', ErrorLine e]\<rparr>)"
    by (simp add: main_def no_effects_def print_line_def)
  then show ?thesis using w3 by simp
qed

text \<open>
  C5: when the CSV text is read and one of the three mandatory columns (symbol, traded
  quantity, delivery quantity) has no header that passes its substring test,
  \<open>parse_deliverable_csv\<close> fails with the schema error, whose message lists the headers
  found; and a run of \<open>main\<close> that reaches the parse with this text ends with exit status 2,
  the error printed last, and no file written.
\<close>

theorem parse_deliverable_csv_schema_error:
  assumes read: "read_csv w True csv_text = Inr df"
      and missing: "\<not> list_ex (\<lambda>c. is_symbol_key (str_lower c)) (columns df)
                  \<or> \<not> list_ex (\<lambda>c. is_traded_key (str_lower c)) (columns df)
                  \<or> \<not> list_ex (\<lambda>c. is_deliver_key (str_lower c)) (columns df)"
  shows "parse_deliverable_csv w csv_text =
           Inl (RuntimeError (''CSV missing expected columns. Found: '' @ join '', '' (columns df)))
       \<and> (fetch_nifty50_symbols w (print_line ''Fetching NIFTY-50 list...'' no_effects)
             = (Inr nifty_symbols, s1)
          \<and> discover_csv_link w (print_line ''Discovering deliverable CSV link...'' s1)
             = (Inr csv_link, s2)
          \<and> download_csv_text w csv_link (print_line (''CSV link: '' @ csv_link) s2)
             = (Inr csv_text, s3)
          \<longrightarrow> fst (main w) = 2 \<and> written (snd (main w)) = []
              \<and> last (stdout (snd (main w))) = ErrorLine (RuntimeError
                  (''CSV missing expected columns. Found: '' @ join '', '' (columns df))))"
proof -
  have p: "parse_deliverable_csv w csv_text = Inl (schema_error df)"
    using missing by (auto simp: parse_deliverable_csv_cases [OF read] all_resolved_def)
  show ?thesis
  proof (intro conjI impI)
    show "parse_deliverable_csv w csv_text =
           Inl (RuntimeError (''CSV missing expected columns. Found: '' @ join '', '' (columns df)))"
      using p by (simp add: schema_error_def)
  next
    assume h: "fetch_nifty50_symbols w (print_line ''Fetching NIFTY-50 list...'' no_effects)
             = (Inr nifty_symbols, s1)
          \<and> discover_csv_link w (print_line ''Discovering deliverable CSV link...'' s1)
             = (Inr csv_link, s2)
          \<and> download_csv_text w csv_link (print_line (''CSV link: '' @ csv_link) s2)
             = (Inr csv_text, s3)"
    have m: "main w = (2, s3\<lparr>stdout := stdout s3 @ [Line ''Parsing CSV...'', ErrorLine (schema_error df)]\<rparr>)"
      "written s3 = []"
      using main_parse_failure [OF _ _ _ p] h by blast+
    show "fst (main w) = 2" using m by simp
    show "written (snd (main w)) = []" using m by simp
    show "last (stdout (snd (main w))) = ErrorLine (RuntimeError
                  (''CSV missing expected columns. Found: '' @ join '', '' (columns df)))"
      using m by (simp add: schema_error_def)
  qed
qed

lemma example_renamed_headers:
  "join '', '' (columns renamed_frame) = ''Symbol, Traded Qty, Del. Amount''"
  "list_ex (\<lambda>c. is_symbol_key (str_lower c)) (columns renamed_frame)"
  "list_ex (\<lambda>c. is_traded_key (str_lower c)) (columns renamed_frame)"
  "\<not> list_ex (\<lambda>c. is_deliver_key (str_lower c)) (columns renamed_frame)"
  by code_simp+

lemma example_renamed_stages:
  "fetch_nifty50_symbols (example_world None example_links renamed_csv renamed_frame)
       (print_line ''Fetching NIFTY-50 list...'' no_effects)
     = (Inr {Some ''TCS'', Some ''INFY''},
        \<lparr>requested = [NIFTY50_CSV], stdout = [Line ''Fetching NIFTY-50 list...''], written = []\<rparr>)"
  "discover_csv_link (example_world None example_links renamed_csv renamed_frame)
       (print_line ''Discovering deliverable CSV link...''
          \<lparr>requested = [NIFTY50_CSV], stdout = [Line ''Fetching NIFTY-50 list...''], written = []\<rparr>)
     = (Inr (SITE_ROOT @ ''/b/security-deliverable.csv''),
        \<lparr>requested = [NIFTY50_CSV, SITE_ROOT, REPORT_PAGE_URL],
         stdout = [Line ''Fetching NIFTY-50 list...'', Line ''Discovering deliverable CSV link...''],
         written = []\<rparr>)"
  "download_csv_text (example_world None example_links renamed_csv renamed_frame)
       (SITE_ROOT @ ''/b/security-deliverable.csv'')
       (print_line (''CSV link: '' @ SITE_ROOT @ ''/b/security-deliverable.csv'')
          \<lparr>requested = [NIFTY50_CSV, SITE_ROOT, REPORT_PAGE_URL],
           stdout = [Line ''Fetching NIFTY-50 list...'', Line ''Discovering deliverable CSV link...''],
           written = []\<rparr>)
     = (Inr renamed_csv,
        \<lparr>requested = [NIFTY50_CSV, SITE_ROOT, REPORT_PAGE_URL,
                      SITE_ROOT @ ''/b/security-deliverable.csv''],
         stdout = [Line ''Fetching NIFTY-50 list...'', Line ''Discovering deliverable CSV link...'',
                   Line (''CSV link: '' @ SITE_ROOT @ ''/b/security-deliverable.csv'')],
         written = []\<rparr>)"
  by code_simp+

theorem parse_deliverable_csv_schema_error_witness:
  "read_csv (example_world None example_links renamed_csv renamed_frame) True renamed_csv
     = Inr renamed_frame
   \<and> \<not> list_ex (\<lambda>c. is_deliver_key (str_lower c)) (columns renamed_frame)
   \<and> parse_deliverable_csv (example_world None example_links renamed_csv renamed_frame) renamed_csv
     = Inl (RuntimeError ''CSV missing expected columns. Found: Symbol, Traded Qty, Del. Amount'')
   \<and> fst (main (example_world None example_links renamed_csv renamed_frame)) = 2
   \<and> written (snd (main (example_world None example_links renamed_csv renamed_frame))) = []
   \<and> last (stdout (snd (main (example_world None example_links renamed_csv renamed_frame))))
     = ErrorLine (RuntimeError
         ''CSV missing expected columns. Found: Symbol, Traded Qty, Del. Amount'')"
proof -
  let ?w = "example_world None example_links renamed_csv renamed_frame"
  have read: "read_csv ?w True renamed_csv = Inr renamed_frame"
    by (simp add: example_world_def)
  have missing: "\<not> list_ex (\<lambda>c. is_symbol_key (str_lower c)) (columns renamed_frame)
                  \<or> \<not> list_ex (\<lambda>c. is_traded_key (str_lower c)) (columns renamed_frame)
                  \<or> \<not> list_ex (\<lambda>c. is_deliver_key (str_lower c)) (columns renamed_frame)"
    using example_renamed_headers(4) by blast
  note t = parse_deliverable_csv_schema_error [OF read missing,
      of "{Some ''TCS'', Some ''INFY''}"
         "\<lparr>requested = [NIFTY50_CSV], stdout = [Line ''Fetching NIFTY-50 list...''], written = []\<rparr>"
         "SITE_ROOT @ ''/b/security-deliverable.csv''"
         "\<lparr>requested = [NIFTY50_CSV, SITE_ROOT, REPORT_PAGE_URL],
           stdout = [Line ''Fetching NIFTY-50 list...'', Line ''Discovering deliverable CSV link...''],
           written = []\<rparr>"
         "\<lparr>requested = [NIFTY50_CSV, SITE_ROOT, REPORT_PAGE_URL,
                      SITE_ROOT @ ''/b/security-deliverable.csv''],
         stdout = [Line ''Fetching NIFTY-50 list...'', Line ''Discovering deliverable CSV link...'',
                   Line (''CSV link: '' @ SITE_ROOT @ ''/b/security-deliverable.csv'')],
         written = []\<rparr>"]
  have msg: "''CSV missing expected columns. Found: '' @ join '', '' (columns renamed_frame)
               = ''CSV missing expected columns. Found: Symbol, Traded Qty, Del. Amount''"
    by (simp add: example_renamed_headers(1))
  have p: "parse_deliverable_csv ?w renamed_csv
             = Inl (RuntimeError (''CSV missing expected columns. Found: ''
                 @ join '', '' (columns renamed_frame)))"
    using t by blast
  have m: "fst (main ?w) = 2 \<and> written (snd (main ?w)) = []
           \<and> last (stdout (snd (main ?w))) = ErrorLine (RuntimeError
                (''CSV missing expected columns. Found: '' @ join '', '' (columns renamed_frame)))"
    using t example_renamed_stages by blast
  show ?thesis
    using p m read example_renamed_headers(4) unfolding msg by blast
qed

text \<open>
  C1: on a deliverable CSV whose three columns resolve (here three rows under the headers
  Symbol, Traded Qty, Deliverable Qty), \<open>parse_deliverable_csv\<close> does not return a report
  of stripped, uppercased symbols and integer quantities: line 98 raises
  \<^verbatim>\<open>AttributeError\<close> for the attribute \<^verbatim>\<open>str_strip\<close>, and the run of \<open>main\<close> on this
  input prints the error, exits with status 2 and writes no file.
\<close>

theorem parse_deliverable_csv_str_strip_failure:
  "read_csv (example_world None example_links example_csv example_frame) True example_csv
     = Inr example_frame
   \<and> resolve_columns (columns example_frame)
     = (Some ''Symbol'', Some ''Traded Qty'', Some ''Deliverable Qty'')
   \<and> parse_deliverable_csv (example_world None example_links example_csv example_frame) example_csv
     = Inl (AttributeError ''str_strip'')
   \<and> fst (main (example_world None example_links example_csv example_frame)) = 2
   \<and> written (snd (main (example_world None example_links example_csv example_frame))) = []
   \<and> last (stdout (snd (main (example_world None example_links example_csv example_frame))))
     = ErrorLine (AttributeError ''str_strip'')"
  by code_simp


section \<open>Rows that trade nothing, and runs in which no symbol matches\<close>


text \<open>
  The filter by itself: the rows it returns are the rows whose uppercased symbol is in the
  reference set, in their order, and they are numbered from 0 without gaps.
\<close>

lemma filter_nifty50_rows:
  "map snd (filter_nifty50 w df S) =
     filter (\<lambda>r. Some (Symbol r) \<in> S)
       (map (\<lambda>r. r\<lparr>Symbol := py_upper w (Symbol r)\<rparr>) (map snd df))"
proof -
  define upper where "upper = map (\<lambda>(i, r). (i, r\<lparr>Symbol := py_upper w (Symbol r)\<rparr>)) df"
  define kept where "kept = filter (\<lambda>(i, r). Some (Symbol r) \<in> S) upper"
  have m: "map snd upper = map (\<lambda>r. r\<lparr>Symbol := py_upper w (Symbol r)\<rparr>) (map snd df)"
    unfolding upper_def by (induction df) auto
  have f: "map snd kept = filter (\<lambda>r. Some (Symbol r) \<in> S) (map snd upper)"
    unfolding kept_def by (induction upper) auto
  have "filter_nifty50 w df S = zip [0..<length kept] (map snd kept)"
    by (simp only: filter_nifty50_def Let_def upper_def kept_def)
  then have "map snd (filter_nifty50 w df S) = map snd kept"
    by (simp only: map_snd_zip length_upt length_map diff_zero)
  then show ?thesis by (simp only: f m)
qed

lemma filter_nifty50_index:
  "map fst (filter_nifty50 w df S) = [0..<length (filter_nifty50 w df S)]"
  by (simp add: filter_nifty50_def Let_def)

text \<open>
  C6: when no row matches the reference set, the run is to succeed, with a warning and an
  empty but well-formed file. In a run whose reference list names TCS and INFY and whose
  deliverable CSV has the rows ACC and WIPRO, \<open>main\<close> never reaches the filter, the warning or
  the writer (lines 133-137): the parse fails at line 98, the error is printed after the
  four progress lines, the exit status is 2 and no file is written.
\<close>

theorem main_unmatched_symbols_failure:
  "fst (fetch_nifty50_symbols (example_world None example_links unmatched_csv unmatched_frame)
         (print_line ''Fetching NIFTY-50 list...'' no_effects))
     = Inr {Some ''TCS'', Some ''INFY''}
   \<and> column unmatched_frame ''Symbol'' = [Some ''ACC'', Some ''WIPRO'']
   \<and> main (example_world None example_links unmatched_csv unmatched_frame)
     = (2, \<lparr>requested = [NIFTY50_CSV, SITE_ROOT, REPORT_PAGE_URL,
                          SITE_ROOT @ ''/b/security-deliverable.csv''],
            stdout = [Line ''Fetching NIFTY-50 list...'',
                      Line ''Discovering deliverable CSV link...'',
                      Line ''CSV link: https://www.nseindia.com/b/security-deliverable.csv'',
                      Line ''Parsing CSV...'',
                      ErrorLine (AttributeError ''str_strip'')],
            written = []\<rparr>)"
  by code_simp

section \<open>Which column the scan resolves\<close>





end
